theory Spec2Isabelle
  imports Main
begin

section \<open>Python strings\<close>

text \<open>
  A Python \<open>str\<close> is a sequence of Unicode characters. It is modelled by a \<open>string\<close> that holds
  its UTF-8 encoding: one \<open>char\<close> for an ASCII character, two to four otherwise. The methods
  of \<open>str\<close> work on the characters, so they are defined on the decoded code points. A byte
  that is not part of a well-formed encoding stands for no character: it is decoded to a
  value beyond the Unicode range, which no method changes or classifies, and encoded back
  to itself. Code points are of type \<open>int\<close>.
\<close>

definition continuation :: "char \<Rightarrow> bool" where
  "continuation b = (128 \<le> (of_char b :: nat) \<and> (of_char b :: nat) < 192)"

definition low6 :: "char \<Rightarrow> int" where
  "low6 b = (of_char b :: int) mod 64"

function decode :: "string \<Rightarrow> int list" where
  "decode [] = []"
| "decode (b # bs) =
     (let n = (of_char b :: int) in
      if n < 128 then n # decode bs
      else if 192 \<le> n \<and> n < 224 \<and> 1 \<le> length bs \<and> list_all continuation (take 1 bs)
              \<and> 128 \<le> (n - 192) * 64 + low6 (bs ! 0)
      then ((n - 192) * 64 + low6 (bs ! 0)) # decode (drop 1 bs)
      else if 224 \<le> n \<and> n < 240 \<and> 2 \<le> length bs \<and> list_all continuation (take 2 bs)
              \<and> 2048 \<le> (n - 224) * 4096 + low6 (bs ! 0) * 64 + low6 (bs ! 1)
              \<and> \<not> (0xD800 \<le> (n - 224) * 4096 + low6 (bs ! 0) * 64 + low6 (bs ! 1)
                   \<and> (n - 224) * 4096 + low6 (bs ! 0) * 64 + low6 (bs ! 1) \<le> 0xDFFF)
      then ((n - 224) * 4096 + low6 (bs ! 0) * 64 + low6 (bs ! 1)) # decode (drop 2 bs)
      else if 240 \<le> n \<and> n < 248 \<and> 3 \<le> length bs \<and> list_all continuation (take 3 bs)
              \<and> 65536 \<le> (n - 240) * 262144 + low6 (bs ! 0) * 4096 + low6 (bs ! 1) * 64 + low6 (bs ! 2)
              \<and> (n - 240) * 262144 + low6 (bs ! 0) * 4096 + low6 (bs ! 1) * 64 + low6 (bs ! 2) < 0x110000
      then ((n - 240) * 262144 + low6 (bs ! 0) * 4096 + low6 (bs ! 1) * 64 + low6 (bs ! 2))
           # decode (drop 3 bs)
      else (0x110000 + n) # decode bs)"
  by pat_completeness auto

termination decode
  by (relation "measure length") auto

definition encode_cp :: "int \<Rightarrow> string" where
  "encode_cp c =
     (if c < 128 then [char_of c]
      else if c < 2048 then [char_of (192 + c div 64), char_of (128 + c mod 64)]
      else if c < 65536 then
        [char_of (224 + c div 4096), char_of (128 + (c div 64) mod 64), char_of (128 + c mod 64)]
      else if c < 0x110000 then
        [char_of (240 + c div 262144), char_of (128 + (c div 4096) mod 64),
         char_of (128 + (c div 64) mod 64), char_of (128 + c mod 64)]
      else [char_of (c - 0x110000)])"

definition encode :: "int list \<Rightarrow> string" where
  "encode cs = concat (map encode_cp cs)"

text \<open>
  The Unicode character database. White space is the complete set of \<open>str.isspace\<close>. Letters,
  case and printability are written out for the code points up to U+00FF; beyond, they are
  taken as given, so that what is proved holds for every version of the database.
\<close>

record unicode_db =
  alpha_beyond :: "int \<Rightarrow> bool"  \<comment> \<open>\<open>c.isalpha()\<close> above U+00FF\<close>
  upper_beyond :: "int \<Rightarrow> int list"  \<comment> \<open>\<open>c.upper()\<close> above U+00FF, one or more characters\<close>
  uppercase_beyond :: "int \<Rightarrow> bool"  \<comment> \<open>\<open>c.isupper()\<close> above U+00FF\<close>
  printable_beyond :: "int \<Rightarrow> bool"  \<comment> \<open>\<open>c.isprintable()\<close> above U+00FF\<close>

definition isspace_cp :: "int \<Rightarrow> bool" where
  \<comment> \<open>what \<open>str.strip()\<close> removes\<close>
  "isspace_cp c =
     ((9 \<le> c \<and> c \<le> 13) \<or> (28 \<le> c \<and> c \<le> 32) \<or> c = 0x85 \<or> c = 0xA0 \<or> c = 0x1680
      \<or> (0x2000 \<le> c \<and> c \<le> 0x200A) \<or> c = 0x2028 \<or> c = 0x2029 \<or> c = 0x202F \<or> c = 0x205F
      \<or> c = 0x3000)"

definition isalpha_cp :: "unicode_db \<Rightarrow> int \<Rightarrow> bool" where
  "isalpha_cp u c =
     (if c < 256 then
        (65 \<le> c \<and> c \<le> 90) \<or> (97 \<le> c \<and> c \<le> 122) \<or> c = 0xAA \<or> c = 0xB5 \<or> c = 0xBA
        \<or> (0xC0 \<le> c \<and> c \<le> 0xD6) \<or> (0xD8 \<le> c \<and> c \<le> 0xF6) \<or> 0xF8 \<le> c
      else c < 0x110000 \<and> alpha_beyond u c)"


definition upper_cp :: "unicode_db \<Rightarrow> int \<Rightarrow> int list" where
  \<comment> \<open>the full upper-case mapping: \<open>U+00DF\<close> becomes \<open>SS\<close>\<close>
  "upper_cp u c =
     (if (97 \<le> c \<and> c \<le> 122) \<or> (0xE0 \<le> c \<and> c \<le> 0xF6) \<or> (0xF8 \<le> c \<and> c \<le> 0xFE) then [c - 32]
      else if c = 0xB5 then [0x39C]
      else if c = 0xDF then [0x53, 0x53]
      else if c = 0xFF then [0x178]
      else if c < 256 \<or> 0x110000 \<le> c then [c]
      else upper_beyond u c)"

definition isprintable_cp :: "unicode_db \<Rightarrow> int \<Rightarrow> bool" where
  "isprintable_cp u c =
     (if c < 256 then 32 \<le> c \<and> \<not> (127 \<le> c \<and> c \<le> 160) \<and> c \<noteq> 173
      else 0x110000 \<le> c \<or> printable_beyond u c)"

definition str_len :: "string \<Rightarrow> nat" where
  \<comment> \<open>\<open>len(s)\<close>: the number of characters\<close>
  "str_len s = length (decode s)"

definition characters :: "string \<Rightarrow> string list" where
  \<comment> \<open>the characters of \<open>s\<close>, each as a \<open>str\<close>\<close>
  "characters s = map encode_cp (decode s)"

definition upper :: "unicode_db \<Rightarrow> string \<Rightarrow> string" where
  \<comment> \<open>\<open>s.upper()\<close>\<close>
  "upper u s = encode (concat (map (upper_cp u) (decode s)))"

definition strip :: "string \<Rightarrow> string" where
  \<comment> \<open>\<open>s.strip()\<close>: white space removed at both ends\<close>
  "strip s = encode (rev (dropWhile isspace_cp (rev (dropWhile isspace_cp (decode s)))))"

definition isalpha :: "unicode_db \<Rightarrow> string \<Rightarrow> bool" where
  \<comment> \<open>\<open>s.isalpha()\<close>: at least one character, and all of them letters\<close>
  "isalpha u s = (decode s \<noteq> [] \<and> list_all (isalpha_cp u) (decode s))"

fun join :: "string \<Rightarrow> string list \<Rightarrow> string" where
  \<comment> \<open>\<open>sep.join(parts)\<close>\<close>
  "join sep [] = []"
| "join sep [p] = p"
| "join sep (p # q # ps) = p @ sep @ join sep (q # ps)"

section \<open>Outbound requests\<close>

text \<open>
  What one GET of the External Call Adapter can end in: \<open>client.get\<close> raises (network error,
  timeout), \<open>raise_for_status\<close> raises, decoding the body raises, or the decoded payload
  comes back.
\<close>

datatype 'a http_result = Request_failed | Error_status | Bad_payload | Payload 'a

text \<open>
  The outside world of one handler invocation: the answer to its \<open>n\<close>-th outbound request
  (counted from 0) when that request goes to the given URL. A handler returns its result
  together with the URLs it requested, in order.
\<close>

type_synonym 'a net = "nat \<Rightarrow> string \<Rightarrow> 'a http_result"

definition answers :: "'a http_result list \<Rightarrow> 'a net" where
  \<comment> \<open>a scripted world for the examples: the \<open>n\<close>-th request gets the \<open>n\<close>-th answer, whatever its URL\<close>
  "answers rs n url = (if n < length rs then rs ! n else Request_failed)"

datatype py_error = KeyError | TypeError | IndexError | ValueError | AttributeError | OverflowError

definition AVIATION_WEATHER_API :: string where
  "AVIATION_WEATHER_API = ''https://aviationweather.gov/api/data''"

definition make_aviation_request :: "string net \<Rightarrow> string list \<Rightarrow> string \<Rightarrow> string option \<times> string list" where
  \<comment> \<open>every exception inside the \<open>try\<close> becomes \<open>None\<close>\<close>
  "make_aviation_request net log url =
     (case net (length log) url of
        Request_failed \<Rightarrow> None
      | Error_status \<Rightarrow> None
      | Bad_payload \<Rightarrow> None
      | Payload text \<Rightarrow> Some text,
      log @ [url])"

section \<open>\<open>get_aviation_weather\<close>\<close>

definition truthy_text :: "string option \<Rightarrow> bool" where
  \<comment> \<open>Python's truth value of a \<open>str | None\<close>: \<open>None\<close> and the empty string are false\<close>
  "truthy_text d = (case d of None \<Rightarrow> False | Some t \<Rightarrow> t \<noteq> [])"

definition get_aviation_weather :: "unicode_db \<Rightarrow> string net \<Rightarrow> string \<Rightarrow> (py_error + string) \<times> string list" where
  "get_aviation_weather u net icao_code_arg =
     (let icao_code = strip (upper u icao_code_arg) in
      if str_len icao_code \<noteq> 4 \<or> \<not> isalpha u icao_code
      then (Inr ''Invalid ICAO code. Please provide a 4-letter airport code (e.g., KORD, EGLL, KJFK).'', [])
      else
        let metar_url = AVIATION_WEATHER_API @ ''/metar?ids='' @ icao_code @ ''&format=raw'';
            (metar_data, log1) = make_aviation_request net [] metar_url;
            result_parts1 =
              (case metar_data of
                 Some text \<Rightarrow>
                   if text \<noteq> [] \<and> strip text \<noteq> []
                   then [''METAR for '' @ icao_code @ '':'', strip text]
                   else [''METAR for '' @ icao_code @ '': No current METAR data available'']
               | None \<Rightarrow> [''METAR for '' @ icao_code @ '': No current METAR data available'']);
            taf_url = AVIATION_WEATHER_API @ ''/taf?ids='' @ icao_code @ ''&format=raw'';
            (taf_data, log2) = make_aviation_request net log1 taf_url;
            result_parts2 =
              (case taf_data of
                 Some text \<Rightarrow>
                   if text \<noteq> [] \<and> strip text \<noteq> []
                   then result_parts1 @ [''\<newline>TAF for '' @ icao_code @ '':'', strip text]
                   else result_parts1 @ [''\<newline>TAF for '' @ icao_code @ '': No current TAF data available'']
               | None \<Rightarrow> result_parts1 @ [''\<newline>TAF for '' @ icao_code @ '': No current TAF data available''])
        in if \<not> truthy_text metar_data \<and> \<not> truthy_text taf_data
           then (Inr (''Unable to fetch aviation weather data for '' @ icao_code
                      @ ''. Please check the ICAO code and try again.''), log2)
           else (Inr (join ''\<newline>'' result_parts2), log2))"


section \<open>Decoded JSON and the Python operations applied to it\<close>

text \<open>
  Floating point is outside this development: a Python \<open>float\<close> is a value of a type
  parameter \<open>'f\<close>, and the four built-ins the handlers apply to floats are taken as given.
\<close>

record 'f float_ops =
  float_str :: "'f \<Rightarrow> string"  \<comment> \<open>\<open>str(x)\<close>, also what an f-string prints\<close>
  float_parse :: "string \<Rightarrow> 'f option"  \<comment> \<open>\<open>float(s)\<close> of a \<open>str\<close>; \<open>None\<close> is ValueError\<close>
  float_of_int :: "int \<Rightarrow> 'f option"  \<comment> \<open>\<open>float(n)\<close> of an \<open>int\<close>; \<open>None\<close> is OverflowError\<close>
  float_is_zero :: "'f \<Rightarrow> bool"  \<comment> \<open>\<open>not x\<close>\<close>

text \<open>
  What \<open>response.json()\<close> returns. A \<open>dict\<close> is the list of its items; a dict has one item
  per key, and a lookup takes the first item with the key.
\<close>

datatype 'f json = JNull | JBool bool | JInt int | JFloat 'f | JStr string
  | JArr "'f json list" | JObj "(string \<times> 'f json) list"

fun dec_nat :: "nat \<Rightarrow> string" where
  "dec_nat n = (if n < 10 then [char_of (48 + n)] else dec_nat (n div 10) @ [char_of (48 + n mod 10)])"

declare dec_nat.simps [simp del]

definition dec_int :: "int \<Rightarrow> string" where
  \<comment> \<open>\<open>str(n)\<close> of an \<open>int\<close>\<close>
  "dec_int i = (if i < 0 then ''-'' @ dec_nat (nat (- i)) else dec_nat (nat i))"

definition hex_digit :: "bool \<Rightarrow> nat \<Rightarrow> char" where
  "hex_digit uppercase d = (if d < 10 then char_of (48 + d) else char_of ((if uppercase then 55 else 87) + d))"

definition hex2 :: "bool \<Rightarrow> char \<Rightarrow> string" where
  "hex2 uppercase c = (let n = (of_char c :: nat) in [hex_digit uppercase (n div 16), hex_digit uppercase (n mod 16)])"

fun hex_lower :: "nat \<Rightarrow> int \<Rightarrow> string" where
  \<comment> \<open>the value in lower-case hex, on the given number of digits\<close>
  "hex_lower 0 v = []"
| "hex_lower (Suc k) v = hex_lower k (v div 16) @ [hex_digit False (nat (v mod 16))]"

definition repr_cp :: "unicode_db \<Rightarrow> int \<Rightarrow> int \<Rightarrow> string" where
  \<comment> \<open>a character inside \<open>repr(s)\<close>: what is not printable is escaped\<close>
  "repr_cp u quote c =
     (if c = quote \<or> c = 0x5C then CHR 0x5C # encode_cp c
      else if c = 9 then [CHR 0x5C, CHR ''t'']
      else if c = 10 then [CHR 0x5C, CHR ''n'']
      else if c = 13 then [CHR 0x5C, CHR ''r'']
      else if c < 32 \<or> c = 127 then [CHR 0x5C, CHR ''x''] @ hex_lower 2 c
      else if c < 128 \<or> isprintable_cp u c then encode_cp c
      else if c < 256 then [CHR 0x5C, CHR ''x''] @ hex_lower 2 c
      else if c < 65536 then [CHR 0x5C, CHR ''u''] @ hex_lower 4 c
      else [CHR 0x5C, CHR ''U''] @ hex_lower 8 c)"

definition repr_str :: "unicode_db \<Rightarrow> string \<Rightarrow> string" where
  \<comment> \<open>\<open>repr(s)\<close> of a \<open>str\<close>: double quotes only when the text has a single and no double quote\<close>
  "repr_str u s =
     (let cs = decode s;
          quote = (if 0x27 \<in> set cs \<and> 0x22 \<notin> set cs then 0x22 else 0x27)
      in encode_cp quote @ concat (map (repr_cp u quote) cs) @ encode_cp quote)"

fun py_repr :: "unicode_db \<Rightarrow> 'f float_ops \<Rightarrow> 'f json \<Rightarrow> string" where
  "py_repr u fl JNull = ''None''"
| "py_repr u fl (JBool b) = (if b then ''True'' else ''False'')"
| "py_repr u fl (JInt i) = dec_int i"
| "py_repr u fl (JFloat x) = float_str fl x"
| "py_repr u fl (JStr s) = repr_str u s"
| "py_repr u fl (JArr xs) = ''['' @ join '', '' (map (py_repr u fl) xs) @ '']''"
| "py_repr u fl (JObj kvs) =
     ''{'' @ join '', '' (map (\<lambda>(k, v). repr_str u k @ '': '' @ py_repr u fl v) kvs) @ ''}''"

definition py_str :: "unicode_db \<Rightarrow> 'f float_ops \<Rightarrow> 'f json \<Rightarrow> string" where
  \<comment> \<open>what an f-string prints for \<open>{v}\<close>\<close>
  "py_str u fl v = (case v of JStr s \<Rightarrow> s | _ \<Rightarrow> py_repr u fl v)"

fun truthy :: "'f float_ops \<Rightarrow> 'f json \<Rightarrow> bool" where
  \<comment> \<open>Python's truth value: \<open>not v\<close> is \<open>\<not> truthy v\<close>\<close>
  "truthy fl JNull = False"
| "truthy fl (JBool b) = b"
| "truthy fl (JInt i) = (i \<noteq> 0)"
| "truthy fl (JFloat x) = (\<not> float_is_zero fl x)"
| "truthy fl (JStr s) = (s \<noteq> [])"
| "truthy fl (JArr xs) = (xs \<noteq> [])"
| "truthy fl (JObj kvs) = (kvs \<noteq> [])"

fun subscript :: "'f json \<Rightarrow> string \<Rightarrow> py_error + 'f json" where
  \<comment> \<open>\<open>v[key]\<close> with a \<open>str\<close> key: only a dict has such items\<close>
  "subscript (JObj kvs) key = (case map_of kvs key of None \<Rightarrow> Inl KeyError | Some v \<Rightarrow> Inr v)"
| "subscript _ key = Inl TypeError"

fun has_substring :: "string \<Rightarrow> string \<Rightarrow> bool" where
  \<comment> \<open>\<open>key in s\<close>; one text occurs in another exactly when its encoding does\<close>
  "has_substring key [] = (key = [])"
| "has_substring key (c # s) = (take (length key) (c # s) = key \<or> has_substring key s)"

fun contains :: "'f json \<Rightarrow> string \<Rightarrow> py_error + bool" where
  \<comment> \<open>\<open>key in v\<close> with a \<open>str\<close> key: a key of a dict, an element of a list, a substring of a \<open>str\<close>\<close>
  "contains (JObj kvs) key = Inr (key \<in> set (map fst kvs))"
| "contains (JArr xs) key = Inr (JStr key \<in> set xs)"
| "contains (JStr s) key = Inr (has_substring key s)"
| "contains _ key = Inl TypeError"

fun iterate :: "'f json \<Rightarrow> py_error + 'f json list" where
  \<comment> \<open>\<open>for x in v\<close>: the elements of a list, the keys of a dict, the characters of a \<open>str\<close>\<close>
  "iterate (JArr xs) = Inr xs"
| "iterate (JObj kvs) = Inr (map (\<lambda>(k, v). JStr k) kvs)"
| "iterate (JStr s) = Inr (map JStr (characters s))"
| "iterate _ = Inl TypeError"

fun slice5 :: "'f json \<Rightarrow> py_error + 'f json list" where
  \<comment> \<open>\<open>for x in v[:5]\<close>; slicing a dict raises (TypeError before Python 3.12, KeyError since)\<close>
  "slice5 (JArr xs) = Inr (take 5 xs)"
| "slice5 (JStr s) = Inr (map JStr (take 5 (characters s)))"
| "slice5 _ = Inl TypeError"

fun py_len :: "'f json \<Rightarrow> py_error + nat" where
  "py_len (JArr xs) = Inr (length xs)"
| "py_len (JObj kvs) = Inr (length kvs)"
| "py_len (JStr s) = Inr (str_len s)"
| "py_len _ = Inl TypeError"

fun index0 :: "'f json \<Rightarrow> py_error + 'f json" where
  \<comment> \<open>\<open>v[0]\<close>; a decoded JSON object has \<open>str\<close> keys only\<close>
  "index0 (JArr []) = Inl IndexError"
| "index0 (JArr (x # xs)) = Inr x"
| "index0 (JStr s) = (case characters s of [] \<Rightarrow> Inl IndexError | c # cs \<Rightarrow> Inr (JStr c))"
| "index0 (JObj kvs) = Inl KeyError"
| "index0 _ = Inl TypeError"

fun dict_get :: "'f json \<Rightarrow> string \<Rightarrow> 'f json \<Rightarrow> py_error + 'f json" where
  \<comment> \<open>\<open>v.get(key, default)\<close>: only a dict has the method\<close>
  "dict_get (JObj kvs) key dflt = (case map_of kvs key of None \<Rightarrow> Inr dflt | Some v \<Rightarrow> Inr v)"
| "dict_get _ key dflt = Inl AttributeError"

fun py_float :: "'f float_ops \<Rightarrow> 'f json \<Rightarrow> py_error + 'f" where
  \<comment> \<open>\<open>float(v)\<close>\<close>
  "py_float fl (JFloat x) = Inr x"
| "py_float fl (JInt i) = (case float_of_int fl i of None \<Rightarrow> Inl OverflowError | Some x \<Rightarrow> Inr x)"
| "py_float fl (JBool b) =
     (case float_of_int fl (if b then 1 else 0) of None \<Rightarrow> Inl OverflowError | Some x \<Rightarrow> Inr x)"
| "py_float fl (JStr s) = (case float_parse fl s of None \<Rightarrow> Inl ValueError | Some x \<Rightarrow> Inr x)"
| "py_float fl _ = Inl TypeError"

fun traverse :: "('a \<Rightarrow> py_error + 'b) \<Rightarrow> 'a list \<Rightarrow> py_error + 'b list" where
  \<comment> \<open>a loop or comprehension that builds a list: the first exception ends it\<close>
  "traverse f [] = Inr []"
| "traverse f (x # xs) =
     (case f x of
        Inl e \<Rightarrow> Inl e
      | Inr y \<Rightarrow> (case traverse f xs of Inl e \<Rightarrow> Inl e | Inr ys \<Rightarrow> Inr (y # ys)))"


section \<open>The weather handlers\<close>

definition NWS_API_BASE :: string where
  "NWS_API_BASE = ''https://api.weather.gov''"

definition GEOCODING_API :: string where
  "GEOCODING_API = ''https://nominatim.openstreetmap.org''"

definition make_nws_request :: "'f json net \<Rightarrow> string list \<Rightarrow> string \<Rightarrow> 'f json option \<times> string list" where
  "make_nws_request net log url =
     (case net (length log) url of
        Request_failed \<Rightarrow> None
      | Error_status \<Rightarrow> None
      | Bad_payload \<Rightarrow> None
      | Payload data \<Rightarrow> Some data,
      log @ [url])"

definition make_geocoding_request :: "'f json net \<Rightarrow> string list \<Rightarrow> string \<Rightarrow> 'f json option \<times> string list" where
  "make_geocoding_request net log url =
     (case net (length log) url of
        Request_failed \<Rightarrow> None
      | Error_status \<Rightarrow> None
      | Bad_payload \<Rightarrow> None
      | Payload data \<Rightarrow> Some data,
      log @ [url])"

definition format_alert :: "unicode_db \<Rightarrow> 'f float_ops \<Rightarrow> 'f json \<Rightarrow> py_error + string" where
  "format_alert u fl feature =
     (case subscript feature ''properties'' of Inl e \<Rightarrow> Inl e | Inr props \<Rightarrow>
      case dict_get props ''event'' (JStr ''Unknown'') of Inl e \<Rightarrow> Inl e | Inr event \<Rightarrow>
      case dict_get props ''areaDesc'' (JStr ''Unknown'') of Inl e \<Rightarrow> Inl e | Inr area \<Rightarrow>
      case dict_get props ''severity'' (JStr ''Unknown'') of Inl e \<Rightarrow> Inl e | Inr severity \<Rightarrow>
      case dict_get props ''description'' (JStr ''No description available'') of Inl e \<Rightarrow> Inl e | Inr description \<Rightarrow>
      case dict_get props ''instruction'' (JStr ''No specific instructions provided'') of Inl e \<Rightarrow> Inl e | Inr instruction \<Rightarrow>
      Inr (''\<newline>        Event: '' @ py_str u fl event
         @ ''\<newline>        Area: '' @ py_str u fl area
         @ ''\<newline>        Severity: '' @ py_str u fl severity
         @ ''\<newline>        Description: '' @ py_str u fl description
         @ ''\<newline>        Instructions: '' @ py_str u fl instruction
         @ ''\<newline>        ''))"

definition get_alerts :: "unicode_db \<Rightarrow> 'f float_ops \<Rightarrow> 'f json net \<Rightarrow> string \<Rightarrow> (py_error + string) \<times> string list" where
  "get_alerts u fl net state =
     (let url = NWS_API_BASE @ ''/alerts/active/area/'' @ state;
          (data_opt, log) = make_nws_request net [] url
      in (case data_opt of
            None \<Rightarrow> Inr ''Unable to fetch alerts or no alerts found.''
          | Some data \<Rightarrow>
              if \<not> truthy fl data then Inr ''Unable to fetch alerts or no alerts found.''
              else
                case contains data ''features'' of Inl e \<Rightarrow> Inl e | Inr present \<Rightarrow>
                if \<not> present then Inr ''Unable to fetch alerts or no alerts found.''
                else
                  case subscript data ''features'' of Inl e \<Rightarrow> Inl e | Inr features \<Rightarrow>
                  if \<not> truthy fl features then Inr ''No active alerts for this state.''
                  else
                    case iterate features of Inl e \<Rightarrow> Inl e | Inr fs \<Rightarrow>
                    case traverse (format_alert u fl) fs of Inl e \<Rightarrow> Inl e | Inr alerts \<Rightarrow>
                    Inr (join ''\<newline>---\<newline>'' alerts),
          log))"

definition forecast_period :: "unicode_db \<Rightarrow> 'f float_ops \<Rightarrow> 'f json \<Rightarrow> py_error + string" where
  \<comment> \<open>the body of the loop of \<open>get_forecast\<close>; the source text has the four bytes C3 82 C2 B0 before the unit\<close>
  "forecast_period u fl period =
     (case subscript period ''name'' of Inl e \<Rightarrow> Inl e | Inr name \<Rightarrow>
      case subscript period ''temperature'' of Inl e \<Rightarrow> Inl e | Inr temperature \<Rightarrow>
      case subscript period ''temperatureUnit'' of Inl e \<Rightarrow> Inl e | Inr unit \<Rightarrow>
      case subscript period ''windSpeed'' of Inl e \<Rightarrow> Inl e | Inr speed \<Rightarrow>
      case subscript period ''windDirection'' of Inl e \<Rightarrow> Inl e | Inr direction \<Rightarrow>
      case subscript period ''detailedForecast'' of Inl e \<Rightarrow> Inl e | Inr detailed \<Rightarrow>
      Inr (''\<newline>            '' @ py_str u fl name @ '':''
         @ ''\<newline>            Temperature: '' @ py_str u fl temperature
         @ [CHR 0xC3, CHR 0x82, CHR 0xC2, CHR 0xB0] @ py_str u fl unit
         @ ''\<newline>            Wind: '' @ py_str u fl speed @ '' '' @ py_str u fl direction
         @ ''\<newline>            Forecast: '' @ py_str u fl detailed
         @ ''\<newline>            ''))"

definition get_forecast :: "unicode_db \<Rightarrow> 'f float_ops \<Rightarrow> 'f json net \<Rightarrow> 'f \<Rightarrow> 'f \<Rightarrow> (py_error + string) \<times> string list" where
  \<comment> \<open>a forecast URL that is not a \<open>str\<close> makes \<open>client.get\<close> raise inside the \<open>try\<close>: nothing is sent\<close>
  "get_forecast u fl net latitude longitude =
     (let points_url = NWS_API_BASE @ ''/points/'' @ float_str fl latitude @ '','' @ float_str fl longitude;
          (points_opt, log1) = make_nws_request net [] points_url
      in case points_opt of
           None \<Rightarrow> (Inr ''Unable to fetch forecast data for this location.'', log1)
         | Some points_data \<Rightarrow>
             if \<not> truthy fl points_data then (Inr ''Unable to fetch forecast data for this location.'', log1)
             else
               case subscript points_data ''properties'' of Inl e \<Rightarrow> (Inl e, log1) | Inr props \<Rightarrow>
               case subscript props ''forecast'' of Inl e \<Rightarrow> (Inl e, log1) | Inr forecast_url \<Rightarrow>
               let (forecast_opt, log2) =
                     (case forecast_url of JStr u \<Rightarrow> make_nws_request net log1 u | _ \<Rightarrow> (None, log1))
               in case forecast_opt of
                    None \<Rightarrow> (Inr ''Unable to fetch detailed forecast.'', log2)
                  | Some forecast_data \<Rightarrow>
                      if \<not> truthy fl forecast_data then (Inr ''Unable to fetch detailed forecast.'', log2)
                      else
                        case subscript forecast_data ''properties'' of Inl e \<Rightarrow> (Inl e, log2) | Inr fprops \<Rightarrow>
                        case subscript fprops ''periods'' of Inl e \<Rightarrow> (Inl e, log2) | Inr periods \<Rightarrow>
                        case slice5 periods of Inl e \<Rightarrow> (Inl e, log2) | Inr shown \<Rightarrow>
                        case traverse (forecast_period u fl) shown of Inl e \<Rightarrow> (Inl e, log2) | Inr forecasts \<Rightarrow>
                        (Inr (join ''\<newline>---\<newline>'' forecasts), log2))"

definition always_safe :: "char \<Rightarrow> bool" where
  \<comment> \<open>the characters \<open>urllib.parse.quote\<close> never encodes: letters, digits and \<open>_.-~\<close>\<close>
  "always_safe c =
     (let n = (of_char c :: nat) in
      (65 \<le> n \<and> n \<le> 90) \<or> (97 \<le> n \<and> n \<le> 122) \<or> (48 \<le> n \<and> n \<le> 57) \<or> c \<in> set ''_.-~'')"

definition quote :: "string \<Rightarrow> string" where
  \<comment> \<open>\<open>urllib.parse.quote(s)\<close> with its default \<open>safe='/'\<close>, on the UTF-8 bytes of \<open>s\<close>\<close>
  "quote s = concat (map (\<lambda>c. if always_safe c \<or> c = CHR ''/'' then [c] else CHR ''%'' # hex2 True c) s)"

definition geocode_location :: "unicode_db \<Rightarrow> 'f float_ops \<Rightarrow> 'f json net \<Rightarrow> string \<Rightarrow> (py_error + string) \<times> string list" where
  "geocode_location u fl net location =
     (if location = [] \<or> strip location = [] then (Inr ''Please provide a valid location name.'', [])
      else
        let encoded_location = quote (strip location);
            url = GEOCODING_API @ ''/search?q='' @ encoded_location @ ''&format=json&limit=1'';
            (data_opt, log) = make_geocoding_request net [] url;
            not_found = ''Unable to find coordinates for '' @ [CHR 0x27] @ location @ [CHR 0x27]
                        @ ''. Please try a more specific location name.''
        in (case data_opt of
              None \<Rightarrow> Inr not_found
            | Some data \<Rightarrow>
                if \<not> truthy fl data then Inr not_found
                else
                  case py_len data of Inl e \<Rightarrow> Inl e | Inr n \<Rightarrow>
                  if n = 0 then Inr not_found
                  else
                    case index0 data of Inl e \<Rightarrow> Inl e | Inr result \<Rightarrow>
                    case subscript result ''lat'' of Inl e \<Rightarrow> Inl e | Inr lat \<Rightarrow>
                    case py_float fl lat of Inl e \<Rightarrow> Inl e | Inr latitude \<Rightarrow>
                    case subscript result ''lon'' of Inl e \<Rightarrow> Inl e | Inr lon \<Rightarrow>
                    case py_float fl lon of Inl e \<Rightarrow> Inl e | Inr longitude \<Rightarrow>
                    case dict_get result ''display_name'' (JStr location) of Inl e \<Rightarrow> Inl e | Inr display_name \<Rightarrow>
                    Inr (''Location: '' @ py_str u fl display_name
                       @ ''\<newline>Latitude: '' @ float_str fl latitude
                       @ ''\<newline>Longitude: '' @ float_str fl longitude
                       @ ''\<newline>Coordinates: '' @ float_str fl latitude @ '', '' @ float_str fl longitude),
            log))"

section \<open>The document reader\<close>

text \<open>
  An exception is modelled by its message, the text of \<open>str(e)\<close>: a computation that can raise
  returns \<open>Inl message\<close>. Only exceptions deriving from \<open>Exception\<close> are modelled, those that
  \<open>except Exception\<close> catches.
\<close>

record http_response =
  status_error :: "string option"  \<comment> \<open>the message of what \<open>raise_for_status()\<close> raises, if it raises\<close>
  content :: string

type_synonym files = "string \<Rightarrow> string option"

text \<open>
  The collaborators of the document adapter: \<open>requests.get\<close>, \<open>tempfile.NamedTemporaryFile\<close>
  (it raises, or creates an empty file whose name is a directory, a prefix and random
  characters followed by the suffix asked for), writing and closing that file, the home
  directories \<open>os.path.expanduser\<close> looks up (the empty name is the current user), and the
  conversion capability, which reads the files present when it is called.
\<close>

record doc_env =
  requests_get :: "string \<Rightarrow> string + http_response"
  temp_stem :: "string \<Rightarrow> string + string"
  temp_write :: "string \<Rightarrow> string \<Rightarrow> string option"
  user_home :: "string \<Rightarrow> string option"
  convert :: "files \<Rightarrow> string \<Rightarrow> string + string option"

definition startswith :: "string \<Rightarrow> string \<Rightarrow> bool" where
  \<comment> \<open>\<open>s.startswith(pre)\<close>\<close>
  "startswith pre s = (take (length pre) s = pre)"

definition endswith :: "string \<Rightarrow> string \<Rightarrow> bool" where
  \<comment> \<open>\<open>s.endswith(suf)\<close>\<close>
  "endswith suf s = (length suf \<le> length s \<and> drop (length s - length suf) s = suf)"

definition rfind :: "char \<Rightarrow> string \<Rightarrow> int" where
  \<comment> \<open>\<open>s.rfind(c)\<close>: the last index of \<open>c\<close>, or \<open>-1\<close>\<close>
  "rfind c s = (case filter (\<lambda>i. s ! i = c) (rev [0..<length s]) of [] \<Rightarrow> - 1 | i # _ \<Rightarrow> int i)"

definition splitext :: "string \<Rightarrow> string \<times> string" where
  \<comment> \<open>\<open>os.path.splitext\<close> (POSIX): the extension starts at the last dot of the last path
      segment, unless only dots precede it in that segment\<close>
  "splitext p =
     (let sepIndex = rfind CHR ''/'' p;
          dotIndex = rfind CHR ''.'' p
      in if dotIndex > sepIndex \<and> list_ex (\<lambda>i. p ! i \<noteq> CHR ''.'') [nat (sepIndex + 1)..<nat dotIndex]
         then (take (nat dotIndex) p, drop (nat dotIndex) p)
         else (p, []))"

definition rstrip_slash :: "string \<Rightarrow> string" where
  "rstrip_slash s = rev (dropWhile (\<lambda>c. c = CHR ''/'') (rev s))"

definition expanduser :: "(string \<Rightarrow> string option) \<Rightarrow> string \<Rightarrow> string" where
  \<comment> \<open>\<open>os.path.expanduser\<close> (POSIX): a leading \<open>~\<close> or \<open>~user\<close> becomes that user's home
      directory when it is known; any other path is returned as it is\<close>
  "expanduser home path =
     (case path of
        [] \<Rightarrow> path
      | c # rest \<Rightarrow>
          if c \<noteq> CHR ''~'' then path
          else
            let name = takeWhile (\<lambda>c. c \<noteq> CHR ''/'') rest;
                tail = dropWhile (\<lambda>c. c \<noteq> CHR ''/'') rest
            in case home name of
                 None \<Rightarrow> path
               | Some userhome \<Rightarrow>
                   let expanded = rstrip_slash userhome @ tail
                   in if expanded = [] then ''/'' else expanded)"

definition get_local_file :: "doc_env \<Rightarrow> files \<Rightarrow> string \<Rightarrow> (string + string) \<times> files" where
  \<comment> \<open>the result or the exception, and the files afterwards; a write that raises is taken to
      leave the new file empty\<close>
  "get_local_file env fs file_path =
     (if startswith ''http://'' file_path \<or> startswith ''https://'' file_path
      then
        case requests_get env file_path of
          Inl e \<Rightarrow> (Inl e, fs)
        | Inr response \<Rightarrow>
            (case status_error response of
               Some e \<Rightarrow> (Inl e, fs)
             | None \<Rightarrow>
                 let file_without_query_param = takeWhile (\<lambda>c. c \<noteq> CHR ''?'') file_path;
                     (root, ext0) = splitext file_without_query_param;
                     ext = (if ext0 \<noteq> [] then ext0 else ''.tmp'')
                 in case temp_stem env ext of
                      Inl e \<Rightarrow> (Inl e, fs)
                    | Inr stem \<Rightarrow>
                        let temp_name = stem @ ext;
                            fs1 = fs(temp_name \<mapsto> [])
                        in case temp_write env temp_name (content response) of
                             Some e \<Rightarrow> (Inl e, fs1)
                           | None \<Rightarrow> (Inr temp_name, fs(temp_name \<mapsto> content response)))
      else (Inr (expanduser (user_home env) file_path), fs))"

definition read_pdf :: "doc_env \<Rightarrow> files \<Rightarrow> string \<Rightarrow> string \<times> files" where
  "read_pdf env fs file_path =
     (case get_local_file env fs file_path of
        (Inl e, fs1) \<Rightarrow> (''Error reading PDF: '' @ e, fs1)
      | (Inr local_path, fs1) \<Rightarrow>
          (case convert env fs1 local_path of
             Inl e \<Rightarrow> (''Error reading PDF: '' @ e, fs1)
           | Inr text_content \<Rightarrow>
               (case text_content of None \<Rightarrow> ([], fs1) | Some text \<Rightarrow> (text, fs1))))"

definition read_docx :: "doc_env \<Rightarrow> files \<Rightarrow> string \<Rightarrow> string \<times> files" where
  "read_docx env fs file_path =
     (case get_local_file env fs file_path of
        (Inl e, fs1) \<Rightarrow> (''Error reading DOCX: '' @ e, fs1)
      | (Inr local_path, fs1) \<Rightarrow>
          (case convert env fs1 local_path of
             Inl e \<Rightarrow> (''Error reading DOCX: '' @ e, fs1)
           | Inr text_content \<Rightarrow>
               (case text_content of None \<Rightarrow> ([], fs1) | Some text \<Rightarrow> (text, fs1))))"

text \<open>
  The document handlers as the specification words them, with the label as a parameter:
  resolve the input, convert the resolved path, return the textual content or the empty
  string when it is absent, and turn any exception into \<open>Error reading <TYPE>: <message>\<close>.
\<close>

definition spec_convert_document :: "string \<Rightarrow> doc_env \<Rightarrow> files \<Rightarrow> string \<Rightarrow> string \<times> files" where
  "spec_convert_document label env fs file_path =
     (let (resolved, fs1) = get_local_file env fs file_path;
          outcome = (case resolved of Inl e \<Rightarrow> Inl e | Inr local_path \<Rightarrow> convert env fs1 local_path)
      in case outcome of
           Inl e \<Rightarrow> (''Error reading '' @ label @ '': '' @ e, fs1)
         | Inr text_content \<Rightarrow> (case text_content of None \<Rightarrow> [] | Some text \<Rightarrow> text, fs1))"

section \<open>Vocabulary of the statements, and example worlds\<close>



definition basic_unicode :: unicode_db where
  \<comment> \<open>a database with nothing beyond U+00FF, for examples whose characters lie below\<close>
  "basic_unicode = \<lparr>alpha_beyond = (\<lambda>c. False), upper_beyond = (\<lambda>c. [c]),
                     uppercase_beyond = (\<lambda>c. False), printable_beyond = (\<lambda>c. True)\<rparr>"

definition absent_or_empty :: "string http_result \<Rightarrow> bool" where
  \<comment> \<open>the fetch failed, or it returned the empty text\<close>
  "absent_or_empty r = (case r of Payload text \<Rightarrow> text = [] | _ \<Rightarrow> True)"

definition blank :: "string http_result \<Rightarrow> bool" where
  \<comment> \<open>the fetch failed, or it returned nothing but white space\<close>
  "blank r = (case r of Payload text \<Rightarrow> strip text = [] | _ \<Rightarrow> True)"

definition unit_floats :: "unit float_ops" where
  \<comment> \<open>a stand-in for the float built-ins in examples that hold no fractional number\<close>
  "unit_floats = \<lparr>float_str = (\<lambda>x. ''0.0''), float_parse = (\<lambda>s. Some ()),
                   float_of_int = (\<lambda>i. Some ()), float_is_zero = (\<lambda>x. True)\<rparr>"

definition hex_val :: "char \<Rightarrow> nat" where
  "hex_val c =
     (let n = (of_char c :: nat) in
      if 48 \<le> n \<and> n \<le> 57 then n - 48
      else if 65 \<le> n \<and> n \<le> 70 then n - 55
      else if 97 \<le> n \<and> n \<le> 102 then n - 87
      else 0)"

fun unquote :: "string \<Rightarrow> string" where
  \<comment> \<open>percent-decoding, the inverse a server applies to a query value\<close>
  "unquote (p # h # l # s) =
     (if p = CHR ''%'' then char_of (16 * hex_val h + hex_val l) # unquote s
      else p # unquote (h # l # s))"
| "unquote s = s"

definition url_char :: "char \<Rightarrow> bool" where
  \<comment> \<open>what an encoded query value is made of: unreserved characters, \<open>/\<close>, and \<open>%\<close> escapes in capital hex\<close>
  "url_char c = (always_safe c \<or> c = CHR ''/'' \<or> c = CHR ''%'')"

definition failed :: "'a http_result \<Rightarrow> bool" where
  \<comment> \<open>the fetch returned an absent result\<close>
  "failed r = (case r of Payload x \<Rightarrow> False | _ \<Rightarrow> True)"

definition alerts_url :: "string \<Rightarrow> string" where
  "alerts_url state = ''https://api.weather.gov/alerts/active/area/'' @ state"

definition field_or :: "unicode_db \<Rightarrow> 'f float_ops \<Rightarrow> (string \<times> 'f json) list \<Rightarrow> string \<Rightarrow> string \<Rightarrow> string" where
  \<comment> \<open>a property as it is printed: the placeholder when the key is absent\<close>
  "field_or u fl props key placeholder = (case map_of props key of None \<Rightarrow> placeholder | Some v \<Rightarrow> py_str u fl v)"

definition alert_text :: "unicode_db \<Rightarrow> 'f float_ops \<Rightarrow> (string \<times> 'f json) list \<Rightarrow> string" where
  \<comment> \<open>the block printed for a feature with these properties\<close>
  "alert_text u fl props =
     ''\<newline>        Event: '' @ field_or u fl props ''event'' ''Unknown''
     @ ''\<newline>        Area: '' @ field_or u fl props ''areaDesc'' ''Unknown''
     @ ''\<newline>        Severity: '' @ field_or u fl props ''severity'' ''Unknown''
     @ ''\<newline>        Description: '' @ field_or u fl props ''description'' ''No description available''
     @ ''\<newline>        Instructions: '' @ field_or u fl props ''instruction'' ''No specific instructions provided''
     @ ''\<newline>        ''"

definition has_items :: "'f json \<Rightarrow> string list \<Rightarrow> bool" where
  \<comment> \<open>the value is a dict with all these keys\<close>
  "has_items p keys = list_all (\<lambda>k. case subscript p k of Inl e \<Rightarrow> False | Inr v \<Rightarrow> True) keys"

definition item :: "'f json \<Rightarrow> string \<Rightarrow> 'f json" where
  \<comment> \<open>the item under a key that the dict has\<close>
  "item p key = (case subscript p key of Inl e \<Rightarrow> JNull | Inr v \<Rightarrow> v)"

definition period_keys :: "string list" where
  "period_keys = [''name'', ''temperature'', ''temperatureUnit'', ''windSpeed'', ''windDirection'', ''detailedForecast'']"

definition period_text :: "unicode_db \<Rightarrow> 'f float_ops \<Rightarrow> 'f json \<Rightarrow> string" where
  \<comment> \<open>the block printed for a forecast period: name, temperature and unit, wind speed and
      direction, detailed text\<close>
  "period_text u fl p =
     ''\<newline>            '' @ py_str u fl (item p ''name'') @ '':''
     @ ''\<newline>            Temperature: '' @ py_str u fl (item p ''temperature'')
     @ [CHR 0xC3, CHR 0x82, CHR 0xC2, CHR 0xB0] @ py_str u fl (item p ''temperatureUnit'')
     @ ''\<newline>            Wind: '' @ py_str u fl (item p ''windSpeed'') @ '' '' @ py_str u fl (item p ''windDirection'')
     @ ''\<newline>            Forecast: '' @ py_str u fl (item p ''detailedForecast'')
     @ ''\<newline>            ''"

definition points_url :: "'f float_ops \<Rightarrow> 'f \<Rightarrow> 'f \<Rightarrow> string" where
  "points_url fl latitude longitude =
     ''https://api.weather.gov/points/'' @ float_str fl latitude @ '','' @ float_str fl longitude"

definition alert_example :: "unit json" where
  \<comment> \<open>a feature with no description and a null instruction\<close>
  "alert_example =
     JObj [(''id'', JStr ''urn:oid:2.49.0.1.840.0.1''),
           (''properties'', JObj [(''event'', JStr ''Flood Warning''), (''areaDesc'', JStr ''Cook, IL''),
                                  (''severity'', JStr ''Severe''), (''instruction'', JNull)])]"

definition period_example :: "string \<Rightarrow> int \<Rightarrow> unit json" where
  "period_example name temperature =
     JObj [(''name'', JStr name), (''temperature'', JInt temperature), (''temperatureUnit'', JStr ''F''),
           (''windSpeed'', JStr ''5 to 10 mph''), (''windDirection'', JStr ''SW''),
           (''detailedForecast'', JStr ''Sunny.'')]"

definition seven_periods :: "unit json list" where
  "seven_periods =
     [period_example ''Monday'' 70, period_example ''Monday Night'' 52, period_example ''Tuesday'' 71,
      period_example ''Tuesday Night'' 55, period_example ''Wednesday'' 68,
      period_example ''Wednesday Night'' 50, period_example ''Thursday'' 66]"

definition points_example :: "unit json" where
  "points_example =
     JObj [(''properties'', JObj [(''forecast'', JStr ''https://api.weather.gov/gridpoints/LOT/75,72/forecast'')])]"

definition forecast_example :: "unit json" where
  "forecast_example = JObj [(''properties'', JObj [(''periods'', JArr seven_periods)])]"

definition no_files :: files where
  "no_files = (\<lambda>path. None)"

definition reader_env :: doc_env where
  \<comment> \<open>every download succeeds; the conversion returns the text of the file it is given\<close>
  "reader_env =
     \<lparr>requests_get = (\<lambda>url. Inr \<lparr>status_error = None, content = ''%PDF-1.7''\<rparr>),
      temp_stem = (\<lambda>suffix. Inr ''/tmp/tmpk3x9qz1a''),
      temp_write = (\<lambda>name data. None),
      user_home = (\<lambda>name. if name = [] then Some ''/home/reader'' else None),
      convert = (\<lambda>fs path. case fs path of None \<Rightarrow> Inl (''File not found: '' @ path) | Some data \<Rightarrow> Inr (Some data))\<rparr>"

definition offline_env :: doc_env where
  \<comment> \<open>no network, and a conversion that raises on every path\<close>
  "offline_env =
     \<lparr>requests_get = (\<lambda>url. Inl ''Connection refused''),
      temp_stem = (\<lambda>suffix. Inr ''/tmp/tmpk3x9qz1a''),
      temp_write = (\<lambda>name data. None),
      user_home = (\<lambda>name. None),
      convert = (\<lambda>fs path. Inl (''File not found: '' @ path))\<rparr>"

definition periods_without_wind :: "unit json list" where
  \<comment> \<open>seven periods; the second has no \<open>windDirection\<close>\<close>
  "periods_without_wind =
     [period_example ''Monday'' 70,
      JObj [(''name'', JStr ''Monday Night''), (''temperature'', JInt 52),
            (''temperatureUnit'', JStr ''F''), (''windSpeed'', JStr ''5 mph''),
            (''detailedForecast'', JStr ''Clear.'')],
      period_example ''Tuesday'' 71, period_example ''Tuesday Night'' 55,
      period_example ''Wednesday'' 68, period_example ''Wednesday Night'' 50,
      period_example ''Thursday'' 66]"

definition forecast_without_wind :: "unit json" where
  "forecast_without_wind = JObj [(''properties'', JObj [(''periods'', JArr periods_without_wind)])]"

definition alerts_without_properties :: "unit json" where
  \<comment> \<open>two features; the second has no \<open>properties\<close>\<close>
  "alerts_without_properties =
     JObj [(''features'', JArr [alert_example, JObj [(''id'', JStr ''urn:oid:2.49.0.1.840.0.2'')]])]"

definition sharp_s_ab :: string where
  \<comment> \<open>the letter U+00DF followed by \<open>ab\<close>\<close>
  "sharp_s_ab = [CHR 0xC3, CHR 0x9F] @ ''ab''"



definition ideographic_space :: string where
  \<comment> \<open>the white space character U+3000\<close>
  "ideographic_space = [CHR 0xE3, CHR 0x80, CHR 0x80]"

definition tokyo_padded :: string where
  \<comment> \<open>a city name followed by U+3000\<close>
  "tokyo_padded = ''Tokyo'' @ ideographic_space"

section \<open>Strings\<close>

lemma join_Cons_hd: "\<exists>r. join sep ((c # p) # ps) = c # r"
  by (cases ps) simp_all

lemma strip_Nil: "strip [] = []"
  by (simp add: strip_def encode_def)











lemma norm_ORD: "strip (upper u ''ORD'') = ''ORD''"
  by code_simp

lemma norm_K0R1: "strip (upper u ''K0R1'') = ''K0R1''"
  by code_simp

lemma norm_kord: "strip (upper u ''kord'') = ''KORD''"
  by code_simp

lemma norm_KORD: "strip (upper u ''KORD'') = ''KORD''"
  by code_simp


lemma norm_sharp_s: "strip (upper u sharp_s_ab) = ''SSAB''"
  by code_simp

lemma len_ORD: "str_len ''ORD'' = 3"
  by code_simp

lemma len_KORD: "str_len ''KORD'' = 4"
  by code_simp

lemma len_SSAB: "str_len ''SSAB'' = 4"
  by code_simp

lemma isalpha_KORD: "isalpha u ''KORD''"
  by code_simp

lemma isalpha_SSAB: "isalpha u ''SSAB''"
  by code_simp

lemma isalpha_K0R1: "\<not> isalpha u ''K0R1''"
  by code_simp

section \<open>Input validation of \<open>get_aviation_weather\<close>\<close>

lemma gaw_rejected:
  "str_len (strip (upper u s)) \<noteq> 4 \<or> \<not> isalpha u (strip (upper u s)) \<Longrightarrow>
   get_aviation_weather u net s =
     (Inr ''Invalid ICAO code. Please provide a 4-letter airport code (e.g., KORD, EGLL, KJFK).'', [])"
  by (simp add: get_aviation_weather_def Let_def)

lemma gaw_calls:
  "str_len (strip (upper u s)) = 4 \<Longrightarrow> isalpha u (strip (upper u s)) \<Longrightarrow>
   snd (get_aviation_weather u net s) =
     [AVIATION_WEATHER_API @ ''/metar?ids='' @ strip (upper u s) @ ''&format=raw'',
      AVIATION_WEATHER_API @ ''/taf?ids='' @ strip (upper u s) @ ''&format=raw'']"
  by (simp add: get_aviation_weather_def Let_def make_aviation_request_def split: prod.splits)

lemma gaw_not_invalid:
  assumes "str_len (strip (upper u s)) = 4" "isalpha u (strip (upper u s))"
  shows "fst (get_aviation_weather u net s) \<noteq>
     Inr ''Invalid ICAO code. Please provide a 4-letter airport code (e.g., KORD, EGLL, KJFK).''"
  using assms
  by (auto simp add: get_aviation_weather_def Let_def make_aviation_request_def
         split: prod.splits option.splits http_result.splits)

text \<open>
  C3, as amended. \<open>get_aviation_weather\<close> returns the fixed invalid-code message, having issued
  no outbound call, whenever the input, uppercased and with surrounding white space removed, is
  not exactly 4 alphabetic characters; when it is, the handler does not return that message
  and requests the METAR and the TAF URL built from the normalized code. The claim as written
  normalizes the case only. Length, letters and case are those of \<open>str\<close>: the statement holds
  for every Unicode database.
\<close>

theorem get_aviation_weather_validation:
  "(str_len (strip (upper u s)) \<noteq> 4 \<or> \<not> isalpha u (strip (upper u s)) \<longrightarrow>
      get_aviation_weather u net s =
        (Inr ''Invalid ICAO code. Please provide a 4-letter airport code (e.g., KORD, EGLL, KJFK).'', []))
   \<and> (str_len (strip (upper u s)) = 4 \<and> isalpha u (strip (upper u s)) \<longrightarrow>
      fst (get_aviation_weather u net s) \<noteq>
        Inr ''Invalid ICAO code. Please provide a 4-letter airport code (e.g., KORD, EGLL, KJFK).''
      \<and> snd (get_aviation_weather u net s) =
        [''https://aviationweather.gov/api/data/metar?ids='' @ strip (upper u s) @ ''&format=raw'',
         ''https://aviationweather.gov/api/data/taf?ids='' @ strip (upper u s) @ ''&format=raw''])"
  using gaw_rejected [of u s net] gaw_not_invalid [of u s net] gaw_calls [of u s net]
  by (simp add: AVIATION_WEATHER_API_def)

text \<open>
  The three inputs the specification names: \<open>ORD\<close> and \<open>K0R1\<close> are rejected without a request,
  \<open>kord\<close> is requested as \<open>KORD\<close>. The three characters of U+00DF followed by \<open>ab\<close> become
  the four letters \<open>SSAB\<close>, which are requested.
\<close>

theorem get_aviation_weather_validation_witness:
  "get_aviation_weather basic_unicode (answers []) ''ORD'' =
     (Inr ''Invalid ICAO code. Please provide a 4-letter airport code (e.g., KORD, EGLL, KJFK).'', [])
   \<and> get_aviation_weather basic_unicode (answers []) ''K0R1'' =
     (Inr ''Invalid ICAO code. Please provide a 4-letter airport code (e.g., KORD, EGLL, KJFK).'', [])
   \<and> snd (get_aviation_weather basic_unicode (answers []) ''kord'') =
        [''https://aviationweather.gov/api/data/metar?ids=KORD&format=raw'',
         ''https://aviationweather.gov/api/data/taf?ids=KORD&format=raw'']
   \<and> snd (get_aviation_weather basic_unicode (answers []) sharp_s_ab) =
        [''https://aviationweather.gov/api/data/metar?ids=SSAB&format=raw'',
         ''https://aviationweather.gov/api/data/taf?ids=SSAB&format=raw'']"
  using get_aviation_weather_validation [of basic_unicode "''ORD''" "answers []"]
        get_aviation_weather_validation [of basic_unicode "''K0R1''" "answers []"]
        get_aviation_weather_validation [of basic_unicode "''kord''" "answers []"]
        get_aviation_weather_validation [of basic_unicode sharp_s_ab "answers []"]
  by (simp add: norm_ORD norm_K0R1 norm_kord norm_sharp_s len_ORD len_KORD len_SSAB
        isalpha_KORD isalpha_K0R1 isalpha_SSAB)

text \<open>
  C3 as written fails: \<open>'' kord''\<close>, uppercased, has 5 characters and is not alphabetic, and yet it
  is not rejected: both requests go out, for \<open>KORD\<close>.
\<close>

theorem get_aviation_weather_untrimmed_counterexample:
  "\<not> (str_len (upper basic_unicode '' kord'') = 4 \<and> isalpha basic_unicode (upper basic_unicode '' kord''))
   \<and> snd (get_aviation_weather basic_unicode (answers []) '' kord'') =
        [''https://aviationweather.gov/api/data/metar?ids=KORD&format=raw'',
         ''https://aviationweather.gov/api/data/taf?ids=KORD&format=raw'']
   \<and> fst (get_aviation_weather basic_unicode (answers []) '' kord'') \<noteq>
       Inr ''Invalid ICAO code. Please provide a 4-letter airport code (e.g., KORD, EGLL, KJFK).''"
  by code_simp






section \<open>The two feeds of \<open>get_aviation_weather\<close>\<close>

text \<open>
  C2, as amended. For an input that normalizes to a valid code, the handler returns the single
  combined message if and only if each of the two fetches either failed or returned the empty
  text. If the METAR feed has non-blank text and the TAF feed is blank or absent, the result is
  the METAR heading, the stripped METAR text and the line that no TAF data is available; and
  the other way round.
\<close>

theorem get_aviation_weather_feeds:
  assumes "strip (upper u s) = code" "str_len code = 4" "isalpha u code"
  shows "(fst (get_aviation_weather u net s) =
            Inr (''Unable to fetch aviation weather data for '' @ code
                 @ ''. Please check the ICAO code and try again.'')
          \<longleftrightarrow> absent_or_empty (net 0 (''https://aviationweather.gov/api/data/metar?ids='' @ code @ ''&format=raw''))
              \<and> absent_or_empty (net 1 (''https://aviationweather.gov/api/data/taf?ids='' @ code @ ''&format=raw'')))
   \<and> (net 0 (''https://aviationweather.gov/api/data/metar?ids='' @ code @ ''&format=raw'') = Payload m
        \<and> strip m \<noteq> []
        \<and> blank (net 1 (''https://aviationweather.gov/api/data/taf?ids='' @ code @ ''&format=raw''))
       \<longrightarrow> fst (get_aviation_weather u net s) =
            Inr (''METAR for '' @ code @ '':\<newline>'' @ strip m
                 @ ''\<newline>\<newline>TAF for '' @ code @ '': No current TAF data available''))
   \<and> (blank (net 0 (''https://aviationweather.gov/api/data/metar?ids='' @ code @ ''&format=raw''))
        \<and> net 1 (''https://aviationweather.gov/api/data/taf?ids='' @ code @ ''&format=raw'') = Payload t
        \<and> strip t \<noteq> []
       \<longrightarrow> fst (get_aviation_weather u net s) =
            Inr (''METAR for '' @ code @ '': No current METAR data available\<newline>\<newline>TAF for ''
                 @ code @ '':\<newline>'' @ strip t))"
proof -
  let ?m = "net 0 (''https://aviationweather.gov/api/data/metar?ids='' @ code @ ''&format=raw'')"
  let ?t = "net 1 (''https://aviationweather.gov/api/data/taf?ids='' @ code @ ''&format=raw'')"
  show ?thesis
    using assms strip_Nil
    by (cases ?m; cases ?t)
       (simp_all add: get_aviation_weather_def Let_def make_aviation_request_def truthy_text_def
          absent_or_empty_def blank_def AVIATION_WEATHER_API_def)
qed

lemma strip_metar_example: "strip ''KORD 041651Z 18004KT'' = ''KORD 041651Z 18004KT''"
  by code_simp

text \<open>METAR present, TAF refused by the server: the per-feed block, not the combined message.\<close>

theorem get_aviation_weather_feeds_witness:
  "fst (get_aviation_weather basic_unicode (answers [Payload ''KORD 041651Z 18004KT'', Error_status]) ''KORD'') =
     Inr ''METAR for KORD:\<newline>KORD 041651Z 18004KT\<newline>\<newline>TAF for KORD: No current TAF data available''"
  using get_aviation_weather_feeds
          [of basic_unicode "''KORD''" "''KORD''" "answers [Payload ''KORD 041651Z 18004KT'', Error_status]"
              "''KORD 041651Z 18004KT''"]
  by (simp add: norm_KORD len_KORD isalpha_KORD strip_metar_example answers_def blank_def)

text \<open>
  C2 as written fails: when both fetches succeed with an empty body, neither result is absent,
  and the handler still returns the combined message.
\<close>

theorem get_aviation_weather_empty_bodies_counterexample:
  "make_aviation_request (answers [Payload [], Payload []]) []
       ''https://aviationweather.gov/api/data/metar?ids=KORD&format=raw''
     = (Some [], [''https://aviationweather.gov/api/data/metar?ids=KORD&format=raw''])
   \<and> make_aviation_request (answers [Payload [], Payload []])
       [''https://aviationweather.gov/api/data/metar?ids=KORD&format=raw'']
       ''https://aviationweather.gov/api/data/taf?ids=KORD&format=raw''
     = (Some [], [''https://aviationweather.gov/api/data/metar?ids=KORD&format=raw'',
                  ''https://aviationweather.gov/api/data/taf?ids=KORD&format=raw''])
   \<and> fst (get_aviation_weather basic_unicode (answers [Payload [], Payload []]) ''KORD'') =
       Inr ''Unable to fetch aviation weather data for KORD. Please check the ICAO code and try again.''"
  by code_simp

section \<open>Blank input and URL encoding in \<open>geocode_location\<close>\<close>

lemma hex_digit_upper_val: "d < 16 \<Longrightarrow> hex_val (hex_digit True d) = d"
  by (auto simp add: hex_val_def hex_digit_def Let_def)

lemma hex_digit_upper_not_percent: "d < 16 \<Longrightarrow> always_safe (hex_digit True d)"
  by (auto simp add: always_safe_def hex_digit_def Let_def)

lemma percent_not_safe: "\<not> always_safe CHR ''%''"
  by (simp add: always_safe_def)

lemma unquote_plain: "p \<noteq> CHR ''%'' \<Longrightarrow> unquote (p # s) = p # unquote s"
proof (cases s)
  case Nil then show ?thesis by simp
next
  case (Cons h t)
  assume p: "p \<noteq> CHR ''%''"
  show ?thesis
  proof (cases t)
    case Nil with Cons show ?thesis by simp
  next
    case (Cons l u)
    with \<open>s = h # t\<close> p show ?thesis by simp
  qed
qed

lemma unquote_escape: "unquote (CHR ''%'' # hex2 True c @ s) = c # unquote s"
proof -
  have lt: "(of_char c :: nat) < 256" by simp
  have d: "(of_char c :: nat) div 16 < 16" using lt by presburger
  have m: "(of_char c :: nat) mod 16 < 16" by simp
  have "char_of (16 * ((of_char c :: nat) div 16) + (of_char c :: nat) mod 16) = c"
    by simp
  then show ?thesis
    by (simp add: hex2_def Let_def hex_digit_upper_val [OF d] hex_digit_upper_val [OF m])
qed

lemma unquote_quote: "unquote (quote s) = s"
proof (induction s)
  case Nil
  then show ?case by (simp add: quote_def)
next
  case (Cons c s)
  have q: "quote (c # s) = (if always_safe c \<or> c = CHR ''/'' then [c] else CHR ''%'' # hex2 True c) @ quote s"
    by (simp add: quote_def)
  show ?case
  proof (cases "always_safe c \<or> c = CHR ''/''")
    case True
    then have "c \<noteq> CHR ''%''" using percent_not_safe by auto
    with True q Cons show ?thesis by (simp add: unquote_plain)
  next
    case False
    with q Cons show ?thesis by (simp add: unquote_escape)
  qed
qed

lemma quote_Cons:
  "quote (c # s) = (if always_safe c \<or> c = CHR ''/'' then [c] else CHR ''%'' # hex2 True c) @ quote s"
  by (simp add: quote_def)

lemma url_char_piece:
  "list_all url_char (if always_safe c \<or> c = CHR ''/'' then [c] else CHR ''%'' # hex2 True c)"
proof -
  have "(of_char c :: nat) < 256" by simp
  then have d: "(of_char c :: nat) div 16 < 16" by presburger
  have m: "(of_char c :: nat) mod 16 < 16" by simp
  show ?thesis
    using hex_digit_upper_not_percent [OF d] hex_digit_upper_not_percent [OF m]
    by (simp add: url_char_def hex2_def Let_def)
qed

lemma url_char_quote: "list_all url_char (quote s)"
proof (induction s)
  case Nil
  show ?case by (simp add: quote_def)
next
  case (Cons c s)
  from url_char_piece [of c] Cons show ?case
    unfolding quote_Cons list_all_append by blast
qed

lemma snd_make_geocoding_request: "snd (make_geocoding_request net log url) = log @ [url]"
  by (simp add: make_geocoding_request_def)

lemma geocode_calls:
  "strip location \<noteq> [] \<Longrightarrow>
   snd (geocode_location u fl net location) =
     [GEOCODING_API @ ''/search?q='' @ quote (strip location) @ ''&format=json&limit=1'']"
proof -
  assume a: "strip location \<noteq> []"
  then have "location \<noteq> []" using strip_Nil by auto
  with a show ?thesis
    by (simp add: geocode_location_def Let_def make_geocoding_request_def split: prod.splits)
qed

text \<open>
  C6. For an input that is empty or only white space, in the full sense of \<open>str.strip\<close>,
  \<open>geocode_location\<close> returns the fixed message and issues no outbound call. For any other input exactly one request is issued, and
  its query value is the percent-encoding of the trimmed location: it consists of unreserved
  characters, \<open>/\<close> and \<open>%\<close> escapes only, and decodes back to the trimmed location.
\<close>

theorem geocode_location_blank_and_encoding:
  "(location = [] \<or> strip location = [] \<longrightarrow>
      geocode_location u fl net location = (Inr ''Please provide a valid location name.'', []))
   \<and> (strip location \<noteq> [] \<longrightarrow>
      snd (geocode_location u fl net location) =
        [''https://nominatim.openstreetmap.org/search?q='' @ quote (strip location) @ ''&format=json&limit=1''])
   \<and> list_all url_char (quote (strip location))
   \<and> unquote (quote (strip location)) = strip location"
  using geocode_calls [of location u fl net]
  by (simp add: url_char_quote unquote_quote GEOCODING_API_def geocode_location_def)

lemma strip_blank_example: "strip ''   '' = []"
  by code_simp

lemma strip_ideographic_space: "strip ideographic_space = []"
  by code_simp

lemma strip_city_example: "strip '' New York, NY '' = ''New York, NY''"
  by code_simp

lemma strip_tokyo_example: "strip tokyo_padded = ''Tokyo''"
  by code_simp

lemma quote_city_example: "quote ''New York, NY'' = ''New%20York%2C%20NY''"
  by code_simp

lemma quote_tokyo_example: "quote ''Tokyo'' = ''Tokyo''"
  by code_simp

text \<open>
  Three spaces and the ideographic space U+3000 are rejected without a request; a padded city
  name is trimmed and encoded, also when the padding is U+3000.
\<close>

theorem geocode_location_blank_and_encoding_witness:
  "geocode_location basic_unicode unit_floats (answers []) ''   ''
     = (Inr ''Please provide a valid location name.'', [])
   \<and> geocode_location basic_unicode unit_floats (answers []) ideographic_space
     = (Inr ''Please provide a valid location name.'', [])
   \<and> snd (geocode_location basic_unicode unit_floats (answers []) '' New York, NY '') =
        [''https://nominatim.openstreetmap.org/search?q=New%20York%2C%20NY&format=json&limit=1'']
   \<and> snd (geocode_location basic_unicode unit_floats (answers []) tokyo_padded) =
        [''https://nominatim.openstreetmap.org/search?q=Tokyo&format=json&limit=1'']"
  using geocode_location_blank_and_encoding [of "''   ''" basic_unicode unit_floats "answers []"]
        geocode_location_blank_and_encoding [of ideographic_space basic_unicode unit_floats "answers []"]
        geocode_location_blank_and_encoding [of "'' New York, NY ''" basic_unicode unit_floats "answers []"]
        geocode_location_blank_and_encoding [of tokyo_padded basic_unicode unit_floats "answers []"]
  by (simp add: strip_blank_example strip_ideographic_space strip_city_example strip_tokyo_example
        quote_city_example quote_tokyo_example)

section \<open>The cases of \<open>get_alerts\<close>\<close>

lemma traverse_all2: "list_all2 (\<lambda>x y. f x = Inr y) xs ys \<Longrightarrow> traverse f xs = Inr ys"
  by (induction rule: list_all2_induct) simp_all

lemma traverse_map: "(\<And>x. x \<in> set xs \<Longrightarrow> f x = Inr (g x)) \<Longrightarrow> traverse f xs = Inr (map g xs)"
  by (induction xs) simp_all

lemma subscript_truthy: "subscript d k = Inr v \<Longrightarrow> truthy fl d"
  by (cases d) (auto split: option.splits)

lemma dict_get_obj: "dict_get (JObj ps) k d = Inr (case map_of ps k of None \<Rightarrow> d | Some v \<Rightarrow> v)"
  by (simp split: option.splits)

lemma py_str_field:
  "py_str u fl (case map_of ps k of None \<Rightarrow> JStr d | Some v \<Rightarrow> v) = field_or u fl ps k d"
  by (simp add: field_or_def py_str_def split: option.splits)

lemma format_alert_ok:
  assumes "subscript f ''properties'' = Inr (JObj props)"
  shows "format_alert u fl f = Inr (alert_text u fl props)"
  unfolding format_alert_def alert_text_def
  by (simp only: assms sum.case dict_get_obj py_str_field)

lemma format_alerts_ok:
  assumes "list_all2 (\<lambda>f props. subscript f ''properties'' = Inr (JObj props)) fs pss"
  shows "traverse (format_alert u fl) fs = Inr (map (alert_text u fl) pss)"
proof -
  from assms have "list_all2 (\<lambda>f t. format_alert u fl f = Inr t) fs (map (alert_text u fl) pss)"
    unfolding list_all2_map2
    by (rule list_all2_mono) (simp add: format_alert_ok)
  then show ?thesis by (rule traverse_all2)
qed

lemma get_alerts_failed:
  "failed (net 0 (alerts_url state)) \<Longrightarrow>
   get_alerts u fl net state = (Inr ''Unable to fetch alerts or no alerts found.'', [alerts_url state])"
  by (cases "net 0 (alerts_url state)")
     (simp_all add: get_alerts_def make_nws_request_def failed_def alerts_url_def NWS_API_BASE_def)

lemma get_alerts_payload:
  "net 0 (alerts_url state) = Payload d \<Longrightarrow>
   get_alerts u fl net state =
     (if \<not> truthy fl d then Inr ''Unable to fetch alerts or no alerts found.''
      else
        case contains d ''features'' of Inl e \<Rightarrow> Inl e | Inr present \<Rightarrow>
        if \<not> present then Inr ''Unable to fetch alerts or no alerts found.''
        else
          case subscript d ''features'' of Inl e \<Rightarrow> Inl e | Inr features \<Rightarrow>
          if \<not> truthy fl features then Inr ''No active alerts for this state.''
          else
            case iterate features of Inl e \<Rightarrow> Inl e | Inr fs \<Rightarrow>
            case traverse (format_alert u fl) fs of Inl e \<Rightarrow> Inl e | Inr alerts \<Rightarrow>
            Inr (join ''\<newline>---\<newline>'' alerts),
      [alerts_url state])"
  by (simp add: get_alerts_def make_nws_request_def alerts_url_def NWS_API_BASE_def)

lemma contains_obj: "contains (JObj kvs) k = Inr (map_of kvs k \<noteq> None)"
  by (simp add: map_of_eq_None_iff)

lemma map_of_Some_nonempty: "map_of kvs k = Some v \<Longrightarrow> kvs \<noteq> []"
  by auto

text \<open>
  What \<open>get_alerts\<close> returns when the response is as the service documents it: the fixed
  unable-to-fetch text when the fetch fails or the decoded object has no \<open>features\<close> key,
  \<open>No active alerts for this state.\<close> when \<open>features\<close> is the empty list, and otherwise, for
  features that each carry a \<open>properties\<close> object, their blocks in order, joined by the
  separator line, each property printed as it is or as its placeholder when the key is absent.
\<close>

lemma get_alerts_cases:
  "(failed (net 0 (alerts_url state)) \<longrightarrow>
      get_alerts u fl net state = (Inr ''Unable to fetch alerts or no alerts found.'', [alerts_url state]))
   \<and> (net 0 (alerts_url state) = Payload (JObj kvs) \<and> map_of kvs ''features'' = None \<longrightarrow>
      get_alerts u fl net state = (Inr ''Unable to fetch alerts or no alerts found.'', [alerts_url state]))
   \<and> (net 0 (alerts_url state) = Payload (JObj kvs) \<and> map_of kvs ''features'' = Some (JArr []) \<longrightarrow>
      get_alerts u fl net state = (Inr ''No active alerts for this state.'', [alerts_url state]))
   \<and> (net 0 (alerts_url state) = Payload (JObj kvs) \<and> map_of kvs ''features'' = Some (JArr fs)
       \<and> fs \<noteq> [] \<and> list_all2 (\<lambda>f props. subscript f ''properties'' = Inr (JObj props)) fs pss \<longrightarrow>
      get_alerts u fl net state =
        (Inr (join ''\<newline>---\<newline>'' (map (alert_text u fl) pss)), [alerts_url state]))"
proof (intro conjI impI)
  assume "failed (net 0 (alerts_url state))"
  then show "get_alerts u fl net state = (Inr ''Unable to fetch alerts or no alerts found.'', [alerts_url state])"
    by (rule get_alerts_failed)
next
  assume a: "net 0 (alerts_url state) = Payload (JObj kvs) \<and> map_of kvs ''features'' = None"
  then show "get_alerts u fl net state = (Inr ''Unable to fetch alerts or no alerts found.'', [alerts_url state])"
    by (simp add: get_alerts_payload contains_obj del: contains.simps)
next
  assume a: "net 0 (alerts_url state) = Payload (JObj kvs) \<and> map_of kvs ''features'' = Some (JArr [])"
  then have "kvs \<noteq> []" by (auto dest: map_of_Some_nonempty)
  with a show "get_alerts u fl net state = (Inr ''No active alerts for this state.'', [alerts_url state])"
    by (simp add: get_alerts_payload contains_obj del: contains.simps)
next
  assume a: "net 0 (alerts_url state) = Payload (JObj kvs) \<and> map_of kvs ''features'' = Some (JArr fs)
       \<and> fs \<noteq> [] \<and> list_all2 (\<lambda>f props. subscript f ''properties'' = Inr (JObj props)) fs pss"
  then have k: "kvs \<noteq> []" by (auto dest: map_of_Some_nonempty)
  from a have t: "traverse (format_alert u fl) fs = Inr (map (alert_text u fl) pss)"
    by (simp add: format_alerts_ok)
  from a k t show "get_alerts u fl net state =
        (Inr (join ''\<newline>---\<newline>'' (map (alert_text u fl) pss)), [alerts_url state])"
    by (simp add: get_alerts_payload contains_obj del: contains.simps)
qed

lemma alert_example_properties:
  "subscript alert_example ''properties'' =
     Inr (JObj [(''event'', JStr ''Flood Warning''), (''areaDesc'', JStr ''Cook, IL''),
                (''severity'', JStr ''Severe''), (''instruction'', JNull)])"
  by (simp add: alert_example_def)

lemma alert_example_text:
  "alert_text basic_unicode unit_floats [(''event'', JStr ''Flood Warning''), (''areaDesc'', JStr ''Cook, IL''),
                (''severity'', JStr ''Severe''), (''instruction'', JNull)] =
   ''\<newline>        Event: Flood Warning\<newline>        Area: Cook, IL\<newline>        Severity: Severe\<newline>        Description: No description available\<newline>        Instructions: None\<newline>        ''"
  by code_simp

lemma get_alerts_examples:
  "get_alerts basic_unicode unit_floats (answers [Error_status]) ''ZZ''
     = (Inr ''Unable to fetch alerts or no alerts found.'', [''https://api.weather.gov/alerts/active/area/ZZ''])"
  "get_alerts basic_unicode unit_floats (answers [Payload (JObj [(''title'', JStr ''none'')])]) ''ZZ''
     = (Inr ''Unable to fetch alerts or no alerts found.'', [''https://api.weather.gov/alerts/active/area/ZZ''])"
  "get_alerts basic_unicode unit_floats (answers [Payload (JObj [(''features'', JArr [])])]) ''ZZ''
     = (Inr ''No active alerts for this state.'', [''https://api.weather.gov/alerts/active/area/ZZ''])"
  "get_alerts basic_unicode unit_floats
       (answers [Payload (JObj [(''features'', JArr [alert_example, alert_example])])]) ''IL''
     = (Inr ''\<newline>        Event: Flood Warning\<newline>        Area: Cook, IL\<newline>        Severity: Severe\<newline>        Description: No description available\<newline>        Instructions: None\<newline>        \<newline>---\<newline>\<newline>        Event: Flood Warning\<newline>        Area: Cook, IL\<newline>        Severity: Severe\<newline>        Description: No description available\<newline>        Instructions: None\<newline>        '',
        [''https://api.weather.gov/alerts/active/area/IL''])"
  by code_simp+

text \<open>
  C5 says that every feature of a non-empty list is formatted, each field falling back to a
  placeholder when absent. \<open>format_alert\<close> does so for the five fields, but reads
  \<open>feature["properties"]\<close> without a default: a feature without \<open>properties\<close> ends the handler with
  a KeyError, also after features that were formatted. This is the unguarded subscript of C1.
\<close>

theorem get_alerts_feature_without_properties:
  "format_alert basic_unicode unit_floats alert_example =
     Inr ''\<newline>        Event: Flood Warning\<newline>        Area: Cook, IL\<newline>        Severity: Severe\<newline>        Description: No description available\<newline>        Instructions: None\<newline>        ''
   \<and> format_alert basic_unicode unit_floats (JObj [(''id'', JStr ''urn:oid:2.49.0.1.840.0.2'')]) = Inl KeyError
   \<and> get_alerts basic_unicode unit_floats (answers [Payload alerts_without_properties]) ''IL''
       = (Inl KeyError, [''https://api.weather.gov/alerts/active/area/IL''])"
  by code_simp

section \<open>The five periods of \<open>get_forecast\<close>\<close>

lemma has_itemsD: "has_items p ks \<Longrightarrow> k \<in> set ks \<Longrightarrow> subscript p k = Inr (item p k)"
  by (auto simp add: has_items_def item_def list_all_iff split: sum.splits)

lemma forecast_period_ok:
  assumes "has_items p period_keys"
  shows "forecast_period u fl p = Inr (period_text u fl p)"
proof -
  have k: "subscript p ''name'' = Inr (item p ''name'')"
          "subscript p ''temperature'' = Inr (item p ''temperature'')"
          "subscript p ''temperatureUnit'' = Inr (item p ''temperatureUnit'')"
          "subscript p ''windSpeed'' = Inr (item p ''windSpeed'')"
          "subscript p ''windDirection'' = Inr (item p ''windDirection'')"
          "subscript p ''detailedForecast'' = Inr (item p ''detailedForecast'')"
    using assms by (simp_all add: has_itemsD period_keys_def)
  show ?thesis
    unfolding forecast_period_def period_text_def
    by (simp only: k sum.case)
qed

lemma get_forecast_ok:
  assumes "net 0 (points_url fl latitude longitude) = Payload points_data"
    and "subscript points_data ''properties'' = Inr props"
    and "subscript props ''forecast'' = Inr (JStr forecast_url)"
    and "net 1 forecast_url = Payload forecast_data"
    and "subscript forecast_data ''properties'' = Inr fprops"
    and "subscript fprops ''periods'' = Inr (JArr periods)"
    and "list_all (\<lambda>p. has_items p period_keys) (take 5 periods)"
  shows "get_forecast u fl net latitude longitude =
     (Inr (join ''\<newline>---\<newline>'' (map (period_text u fl) (take 5 periods))),
      [points_url fl latitude longitude, forecast_url])"
proof -
  have t1: "truthy fl points_data" using assms(2) by (rule subscript_truthy)
  have t2: "truthy fl forecast_data" using assms(5) by (rule subscript_truthy)
  have tr: "traverse (forecast_period u fl) (take 5 periods) = Inr (map (period_text u fl) (take 5 periods))"
    using assms(7) by (intro traverse_map forecast_period_ok) (simp add: list_all_iff)
  have p: "net 0 (NWS_API_BASE @ ''/points/'' @ float_str fl latitude @ '','' @ float_str fl longitude)
            = Payload points_data"
    using assms(1) by (simp add: points_url_def NWS_API_BASE_def)
  have u: "points_url fl latitude longitude
            = NWS_API_BASE @ ''/points/'' @ float_str fl latitude @ '','' @ float_str fl longitude"
    by (simp add: points_url_def NWS_API_BASE_def)
  show ?thesis
    unfolding get_forecast_def make_nws_request_def Let_def u
    using p t1 t2 tr assms(2-6) by simp
qed

lemma take5_first:
  "5 < length xs \<Longrightarrow> take 5 xs = [xs ! 0, xs ! 1, xs ! 2, xs ! 3, xs ! 4]"
  by (auto simp add: list_eq_iff_nth_eq nth_Cons' numeral_eq_Suc less_Suc_eq)

text \<open>
  What \<open>get_forecast\<close> returns when the responses are as the service documents them: the
  blocks of the first five periods (all of them when there are at most five) in their
  original order, joined by the separator line, each with the name, the temperature and its
  unit, the wind speed and direction, and the detailed text.
\<close>

lemma get_forecast_first_five:
  assumes "net 0 (points_url fl latitude longitude) = Payload points_data"
    and "subscript points_data ''properties'' = Inr props"
    and "subscript props ''forecast'' = Inr (JStr forecast_url)"
    and "net 1 forecast_url = Payload forecast_data"
    and "subscript forecast_data ''properties'' = Inr fprops"
    and "subscript fprops ''periods'' = Inr (JArr periods)"
    and "list_all (\<lambda>p. has_items p period_keys) (take 5 periods)"
  shows "get_forecast u fl net latitude longitude =
           (Inr (join ''\<newline>---\<newline>'' (map (period_text u fl) (take 5 periods))),
            [points_url fl latitude longitude, forecast_url])
         \<and> (5 < length periods \<longrightarrow>
              take 5 periods = [periods ! 0, periods ! 1, periods ! 2, periods ! 3, periods ! 4])
         \<and> (length periods \<le> 5 \<longrightarrow> take 5 periods = periods)"
  using get_forecast_ok [OF assms] take5_first [of periods] by simp


lemma period_example_text:
  "period_text basic_unicode unit_floats (period_example ''Monday'' 70) =
     ''\<newline>            Monday:\<newline>            Temperature: 70'' @ [CHR 0xC3, CHR 0x82, CHR 0xC2, CHR 0xB0]
     @ ''F\<newline>            Wind: 5 to 10 mph SW\<newline>            Forecast: Sunny.\<newline>            ''"
  by code_simp

lemma get_forecast_example:
  "get_forecast basic_unicode unit_floats (answers [Payload points_example, Payload forecast_example]) () () =
     (Inr (''\<newline>            Monday:\<newline>            Temperature: 70'' @ [CHR 0xC3, CHR 0x82, CHR 0xC2, CHR 0xB0]
           @ ''F\<newline>            Wind: 5 to 10 mph SW\<newline>            Forecast: Sunny.\<newline>            ''
           @ ''\<newline>---\<newline>''
           @ ''\<newline>            Monday Night:\<newline>            Temperature: 52'' @ [CHR 0xC3, CHR 0x82, CHR 0xC2, CHR 0xB0]
           @ ''F\<newline>            Wind: 5 to 10 mph SW\<newline>            Forecast: Sunny.\<newline>            ''
           @ ''\<newline>---\<newline>''
           @ ''\<newline>            Tuesday:\<newline>            Temperature: 71'' @ [CHR 0xC3, CHR 0x82, CHR 0xC2, CHR 0xB0]
           @ ''F\<newline>            Wind: 5 to 10 mph SW\<newline>            Forecast: Sunny.\<newline>            ''
           @ ''\<newline>---\<newline>''
           @ ''\<newline>            Tuesday Night:\<newline>            Temperature: 55'' @ [CHR 0xC3, CHR 0x82, CHR 0xC2, CHR 0xB0]
           @ ''F\<newline>            Wind: 5 to 10 mph SW\<newline>            Forecast: Sunny.\<newline>            ''
           @ ''\<newline>---\<newline>''
           @ ''\<newline>            Wednesday:\<newline>            Temperature: 68'' @ [CHR 0xC3, CHR 0x82, CHR 0xC2, CHR 0xB0]
           @ ''F\<newline>            Wind: 5 to 10 mph SW\<newline>            Forecast: Sunny.\<newline>            ''),
      [''https://api.weather.gov/points/0.0,0.0'', ''https://api.weather.gov/gridpoints/LOT/75,72/forecast''])"
  by code_simp

text \<open>
  C4 says that the first five periods of every successful forecast response are formatted.
  The loop reads the six keys of a period by plain subscripts: a period among the first five
  that lacks one of them ends the handler with a KeyError, as here the second of seven
  periods, which has no \<open>windDirection\<close>. This is the unguarded subscript of C1.
\<close>

theorem get_forecast_period_without_key:
  "subscript forecast_without_wind ''properties'' = Inr (JObj [(''periods'', JArr periods_without_wind)])
   \<and> length periods_without_wind = 7
   \<and> get_forecast basic_unicode unit_floats
        (answers [Payload points_example, Payload forecast_without_wind]) () ()
       = (Inl KeyError, [''https://api.weather.gov/points/0.0,0.0'',
                         ''https://api.weather.gov/gridpoints/LOT/75,72/forecast''])"
  by code_simp

section \<open>Exceptions in the document handlers\<close>

text \<open>The four places where resolving a remote input can raise.\<close>

lemma get_local_file_sources:
  assumes "startswith ''http://'' p \<or> startswith ''https://'' p"
  shows "requests_get env p = Inl e \<Longrightarrow> get_local_file env fs p = (Inl e, fs)"
    and "requests_get env p = Inr r \<Longrightarrow> status_error r = Some e \<Longrightarrow> get_local_file env fs p = (Inl e, fs)"
    and "requests_get env p = Inr r \<Longrightarrow> status_error r = None \<Longrightarrow>
         snd (splitext (takeWhile (\<lambda>c. c \<noteq> CHR ''?'') p)) = ext0 \<Longrightarrow>
         temp_stem env (if ext0 \<noteq> [] then ext0 else ''.tmp'') = Inl e \<Longrightarrow>
         get_local_file env fs p = (Inl e, fs)"
    and "requests_get env p = Inr r \<Longrightarrow> status_error r = None \<Longrightarrow>
         snd (splitext (takeWhile (\<lambda>c. c \<noteq> CHR ''?'') p)) = ext0 \<Longrightarrow>
         temp_stem env (if ext0 \<noteq> [] then ext0 else ''.tmp'') = Inr stem \<Longrightarrow>
         temp_write env (stem @ (if ext0 \<noteq> [] then ext0 else ''.tmp'')) (content r) = Some e \<Longrightarrow>
         fst (get_local_file env fs p) = Inl e"
  using assms by (auto simp add: get_local_file_def Let_def split: prod.splits)

text \<open>
  C7. Whatever the input path, an exception raised while the input is resolved, or raised by
  the conversion of the resolved path, makes \<open>read_pdf\<close> return \<open>Error reading PDF: \<close> followed by
  the message of that exception, and \<open>read_docx\<close> return \<open>Error reading DOCX: \<close> followed by it.
  The result is a plain string in every case: the handlers have no other outcome.
\<close>

theorem document_handlers_report_exceptions:
  "(fst (get_local_file env fs p) = Inl e \<longrightarrow>
      fst (read_pdf env fs p) = ''Error reading PDF: '' @ e
      \<and> fst (read_docx env fs p) = ''Error reading DOCX: '' @ e)
   \<and> (get_local_file env fs p = (Inr local_path, fs1) \<and> convert env fs1 local_path = Inl e \<longrightarrow>
      fst (read_pdf env fs p) = ''Error reading PDF: '' @ e
      \<and> fst (read_docx env fs p) = ''Error reading DOCX: '' @ e)"
proof (intro conjI impI)
  assume a: "fst (get_local_file env fs p) = Inl e"
  then obtain fs' where g: "get_local_file env fs p = (Inl e, fs')"
    by (cases "get_local_file env fs p") simp
  show "fst (read_pdf env fs p) = ''Error reading PDF: '' @ e"
    by (simp add: read_pdf_def g)
  show "fst (read_docx env fs p) = ''Error reading DOCX: '' @ e"
    by (simp add: read_docx_def g)
next
  assume a: "get_local_file env fs p = (Inr local_path, fs1) \<and> convert env fs1 local_path = Inl e"
  then show "fst (read_pdf env fs p) = ''Error reading PDF: '' @ e"
    by (simp add: read_pdf_def)
  from a show "fst (read_docx env fs p) = ''Error reading DOCX: '' @ e"
    by (simp add: read_docx_def)
qed

lemma offline_remote:
  "get_local_file offline_env no_files ''https://example.com/a.pdf'' = (Inl ''Connection refused'', no_files)"
  by (simp add: get_local_file_def offline_env_def startswith_def)

lemma offline_local:
  "get_local_file offline_env no_files ''/data/a.docx'' = (Inr ''/data/a.docx'', no_files)"
  by (simp add: get_local_file_def offline_env_def startswith_def expanduser_def)

text \<open>A download that is refused, and a local path whose conversion raises.\<close>

theorem document_handlers_report_exceptions_witness:
  "fst (read_pdf offline_env no_files ''https://example.com/a.pdf'') = ''Error reading PDF: Connection refused''
   \<and> fst (read_docx offline_env no_files ''https://example.com/a.pdf'') = ''Error reading DOCX: Connection refused''
   \<and> fst (read_pdf offline_env no_files ''/data/a.docx'') = ''Error reading PDF: File not found: /data/a.docx''
   \<and> fst (read_docx offline_env no_files ''/data/a.docx'') = ''Error reading DOCX: File not found: /data/a.docx''"
proof -
  have c: "convert offline_env no_files ''/data/a.docx'' = Inl ''File not found: /data/a.docx''"
    by (simp add: offline_env_def)
  from document_handlers_report_exceptions
         [of offline_env no_files "''https://example.com/a.pdf''" "''Connection refused''", THEN conjunct1]
       document_handlers_report_exceptions
         [of offline_env no_files "''/data/a.docx''" "''File not found: /data/a.docx''"
             "''/data/a.docx''" no_files, THEN conjunct2]
  show ?thesis
    by (simp add: offline_remote offline_local c)
qed

section \<open>\<open>read_pdf\<close> and \<open>read_docx\<close> side by side\<close>

text \<open>
  C8. Both handlers are the handler of the specification, instantiated with their label: they
  resolve and convert alike, leave the same files behind and, where no exception is raised,
  return the same text (the empty string when the textual content is absent); on the
  failure path they return the same message behind their own prefix.
\<close>

theorem read_pdf_read_docx_agree:
  "read_pdf env fs p = spec_convert_document ''PDF'' env fs p
   \<and> read_docx env fs p = spec_convert_document ''DOCX'' env fs p
   \<and> snd (read_pdf env fs p) = snd (read_docx env fs p)
   \<and> (fst (read_pdf env fs p) = fst (read_docx env fs p)
       \<or> (\<exists>e. fst (read_pdf env fs p) = ''Error reading PDF: '' @ e
             \<and> fst (read_docx env fs p) = ''Error reading DOCX: '' @ e))"
  by (cases "get_local_file env fs p")
     (auto simp add: read_pdf_def read_docx_def spec_convert_document_def
           split: sum.splits option.splits)

text \<open>A downloaded document is converted alike by both handlers.\<close>

theorem read_pdf_read_docx_agree_witness:
  "fst (read_pdf reader_env no_files ''https://example.com/docs/report.pdf?token=abc'') = ''%PDF-1.7''
   \<and> fst (read_docx reader_env no_files ''https://example.com/docs/report.pdf?token=abc'') = ''%PDF-1.7''"
proof -
  have "fst (spec_convert_document ''PDF'' reader_env no_files
               ''https://example.com/docs/report.pdf?token=abc'') = ''%PDF-1.7''"
    by code_simp
  moreover have "fst (spec_convert_document ''DOCX'' reader_env no_files
               ''https://example.com/docs/report.pdf?token=abc'') = ''%PDF-1.7''"
    by code_simp
  ultimately show ?thesis
    using read_pdf_read_docx_agree [of reader_env no_files "''https://example.com/docs/report.pdf?token=abc''"]
    by simp
qed

section \<open>The extension of the temporary file\<close>

lemma get_local_file_examples:
  "fst (get_local_file reader_env no_files ''https://example.com/docs/report.pdf?token=abc'') = Inr ''/tmp/tmpk3x9qz1a.pdf''"
  "fst (get_local_file reader_env no_files ''https://example.com/download'') = Inr ''/tmp/tmpk3x9qz1a.tmp''"
  "fst (get_local_file reader_env no_files ''~/report.pdf'') = Inr ''/home/reader/report.pdf''"
  "fst (get_local_file reader_env no_files ''/srv/report.pdf'') = Inr ''/srv/report.pdf''"
  by code_simp+

lemma get_local_file_local:
  "\<not> startswith ''http://'' p \<Longrightarrow> \<not> startswith ''https://'' p \<Longrightarrow>
   get_local_file env fs p = (Inr (expanduser (user_home env) p), fs)"
  by (simp add: get_local_file_def)

lemma expanduser_no_tilde: "\<not> startswith ''~'' p \<Longrightarrow> expanduser home p = p"
  by (cases p) (simp_all add: expanduser_def startswith_def)

lemma endswith_append: "endswith suf (stem @ suf)"
  by (simp add: endswith_def)

lemma get_local_file_remote_suffix:
  assumes "startswith ''http://'' p \<or> startswith ''https://'' p"
    and "get_local_file env fs p = (Inr name, fs')"
  shows "endswith (if snd (splitext (takeWhile (\<lambda>c. c \<noteq> CHR ''?'') p)) \<noteq> []
                   then snd (splitext (takeWhile (\<lambda>c. c \<noteq> CHR ''?'') p)) else ''.tmp'') name
         \<and> fs' name = Some (case requests_get env p of Inr r \<Rightarrow> content r | Inl e \<Rightarrow> [])"
  using assms
  by (auto simp add: get_local_file_def Let_def endswith_def
           split: sum.splits option.splits prod.splits if_splits)

text \<open>
  C9 says that a remote URI whose path component has no extension is saved under the default
  extension \<open>.tmp\<close>. The resolver splits the whole URI text before the first \<open>?\<close>, not its path
  component: for a URI that ends with the host name, the last label of the host is taken as
  the extension, and the temporary file of \<open>https://example.com\<close> ends in \<open>.com\<close>.
\<close>

theorem get_local_file_host_only_uri:
  "splitext ''https://example.com'' = (''https://example'', ''.com'')
   \<and> fst (get_local_file reader_env no_files ''https://example.com'') = Inr ''/tmp/tmpk3x9qz1a.com''
   \<and> \<not> endswith ''.tmp'' ''/tmp/tmpk3x9qz1a.com''"
  by code_simp

section \<open>Exceptions that leave the weather handlers\<close>

lemma get_aviation_weather_returns: "\<exists>text. fst (get_aviation_weather u net s) = Inr text"
  by (simp add: get_aviation_weather_def Let_def split: prod.splits)

lemma get_forecast_points_failed:
  "failed (net 0 (points_url fl latitude longitude)) \<Longrightarrow>
   get_forecast u fl net latitude longitude =
     (Inr ''Unable to fetch forecast data for this location.'', [points_url fl latitude longitude])"
  by (cases "net 0 (points_url fl latitude longitude)")
     (simp_all add: get_forecast_def make_nws_request_def failed_def points_url_def NWS_API_BASE_def)

text \<open>
  C1 says that no handler lets an exception pass, also when a response decodes as JSON but
  lacks an expected key. The document handlers and \<open>get_aviation_weather\<close> keep to that; the other
  three weather handlers subscript the decoded response outside any \<open>try\<close>: a points response
  without \<open>properties\<close>, a forecast response without \<open>periods\<close>, a geocoding match without \<open>lat\<close>
  and an alert feature without \<open>properties\<close> each end the handler with a KeyError.
\<close>

theorem weather_handlers_raise_on_missing_keys:
  "get_forecast basic_unicode unit_floats (answers [Payload (JObj [(''status'', JInt 200)])]) () ()
     = (Inl KeyError, [''https://api.weather.gov/points/0.0,0.0''])
   \<and> get_forecast basic_unicode unit_floats
        (answers [Payload points_example, Payload (JObj [(''properties'', JObj [(''units'', JStr ''us'')])])]) () ()
     = (Inl KeyError, [''https://api.weather.gov/points/0.0,0.0'',
                       ''https://api.weather.gov/gridpoints/LOT/75,72/forecast''])
   \<and> geocode_location basic_unicode unit_floats (answers [Payload (JArr [JObj [(''display_name'', JStr ''Paris'')]])]) ''Paris''
     = (Inl KeyError, [''https://nominatim.openstreetmap.org/search?q=Paris&format=json&limit=1''])
   \<and> get_alerts basic_unicode unit_floats (answers [Payload (JObj [(''features'', JArr [JObj [(''id'', JStr ''a1'')]])])]) ''CA''
     = (Inl KeyError, [''https://api.weather.gov/alerts/active/area/CA''])"
  by code_simp

end
